theory Spec2Isabelle
  imports Main
begin

section \<open>Errors raised by the validators\<close>

text \<open>
  The serializers raise \<^verbatim>\<open>serializers.ValidationError\<close> with a message;
  \<^verbatim>\<open>ReviewSerializer.validate\<close> raises the \<^verbatim>\<open>ValidationError\<close> of
  \<^verbatim>\<open>django.core.exceptions\<close>, the name the module imports; and
  \<^verbatim>\<open>get_object_or_404\<close> raises \<^verbatim>\<open>Http404\<close>. The messages of the source are
  Russian sentences; each is named here by what it says.
\<close>

datatype message =
    NameMeForbidden       \<comment> \<open>the name me is forbidden\<close>
  | UserExists            \<comment> \<open>such a user exists\<close>
  | EmailExists           \<comment> \<open>a user with this email exists\<close>
  | CategorySlugExists    \<comment> \<open>a category with this slug already exists\<close>
  | YearAfterCurrent      \<comment> \<open>the year cannot be greater than the current one\<close>
  | TenPointScale         \<comment> \<open>the score is on a 10-point scale\<close>
  | SecondReview          \<comment> \<open>more than one review of a title is not allowed\<close>

datatype error =
    ValidationError message         \<comment> \<open>\<^verbatim>\<open>rest_framework.serializers.ValidationError\<close>\<close>
  | DjangoValidationError message   \<comment> \<open>\<^verbatim>\<open>django.core.exceptions.ValidationError\<close>\<close>
  | Http404

section \<open>Data model\<close>

text \<open>
  Modelled from the spec: \<^verbatim>\<open>users.models.User\<close> is imported by the source and
  is not part of it. The identity of a request carries \<^verbatim>\<open>is_authenticated\<close>, the
  role predicates \<^verbatim>\<open>is_admin\<close> and \<^verbatim>\<open>is_moderator\<close>, and \<^verbatim>\<open>is_superuser\<close>; a
  stored user has a unique username and email. The primary key is absent
  (\<open>None\<close>) for an identity that is not a stored user.
\<close>

record user =
  user_pk :: "int option"
  username :: string
  email :: string
  is_authenticated :: bool
  is_admin :: bool
  is_moderator :: bool
  is_superuser :: bool

text \<open>
  Modelled from the spec: \<^verbatim>\<open>reviews.models\<close> is imported by the source and is
  not part of it. Category and Genre have a name and a slug; a Title has a
  name, a year, an optional description, at most one Category and any number
  of Genres; a Review and a Comment belong to an author.
\<close>

record category =
  category_name :: string
  category_slug :: string

record genre =
  genre_name :: string
  genre_slug :: string

record title =
  title_pk :: int
  title_name :: string
  title_year :: int
  title_description :: "string option"
  title_category :: "category option"
  title_genre :: "genre list"

record authored =
  author :: user

record review = authored +
  review_title :: int   \<comment> \<open>primary key of the reviewed Title\<close>
  review_text :: string
  review_score :: int

record comment = authored +
  comment_review :: int
  comment_text :: string

text \<open>
  Two model instances are equal when they have the same primary key; an
  instance without a primary key equals no stored instance. Filtering on a
  related user compares primary keys in the same way.
\<close>

definition same_user :: "user \<Rightarrow> user \<Rightarrow> bool" where
  "same_user a b = (case user_pk a of None \<Rightarrow> False | Some k \<Rightarrow> user_pk b = Some k)"

text \<open>The field \<open>request_method\<close> is \<^verbatim>\<open>request.method\<close>.\<close>

record request =
  request_method :: string
  user :: user

section \<open>Permissions (api/v1/permissions.py)\<close>

definition SAFE_METHODS :: "string list" where
  "SAFE_METHODS = [''GET'', ''HEAD'', ''OPTIONS'']"

definition AdministratorEdit_has_permission :: "request \<Rightarrow> bool" where
  "AdministratorEdit_has_permission req =
     (is_authenticated (user req) \<and> (is_admin (user req) \<or> is_superuser (user req)))"

definition IsAdminOrReadOnly_has_permission :: "request \<Rightarrow> bool" where
  "IsAdminOrReadOnly_has_permission req =
     (request_method req \<in> set SAFE_METHODS
      \<or> (is_authenticated (user req) \<and> (is_admin (user req) \<or> is_superuser (user req))))"

definition IsAdminOrModeratirOrAuthor_has_permission :: "request \<Rightarrow> bool" where
  "IsAdminOrModeratirOrAuthor_has_permission req =
     (request_method req \<in> set SAFE_METHODS \<or> is_authenticated (user req))"

definition IsAdminOrModeratirOrAuthor_has_object_permission ::
    "request \<Rightarrow> 'a authored_scheme \<Rightarrow> bool" where
  "IsAdminOrModeratirOrAuthor_has_object_permission req obj =
     (request_method req \<in> set SAFE_METHODS
      \<or> is_superuser (user req)
      \<or> is_admin (user req)
      \<or> is_moderator (user req)
      \<or> same_user (user req) (author obj))"

section \<open>Serializers (api/serializers.py)\<close>

text \<open>
  A queryset is the list of the rows that satisfy the filter; it is true, and
  \<^verbatim>\<open>exists()\<close> holds, when it has a row.
\<close>

definition objects_filter :: "('a \<Rightarrow> bool) \<Rightarrow> 'a list \<Rightarrow> 'a list" where
  "objects_filter p rows = filter p rows"

definition exists_qs :: "'a list \<Rightarrow> bool" where
  "exists_qs qs = (qs \<noteq> [])"

subsection \<open>CreateUserSerializer\<close>

text \<open>
  \<^verbatim>\<open>data\<close> is a dictionary; \<^verbatim>\<open>data.get\<close> of a missing key is \<^verbatim>\<open>None\<close>, and
  no stored user has the username or email \<^verbatim>\<open>None\<close>.
\<close>

type_synonym user_data = "string \<rightharpoonup> string"

definition username_is :: "string option \<Rightarrow> user \<Rightarrow> bool" where
  "username_is v u = (v = Some (username u))"

definition email_is :: "string option \<Rightarrow> user \<Rightarrow> bool" where
  "email_is v u = (v = Some (email u))"

definition CreateUserSerializer_validate :: "user list \<Rightarrow> user_data \<Rightarrow> error + user_data" where
  "CreateUserSerializer_validate users data =
     (if data ''username'' = Some ''me'' then Inl (ValidationError NameMeForbidden)
      else if exists_qs (objects_filter (username_is (data ''username'')) users)
        then Inl (ValidationError UserExists)
      else if exists_qs (objects_filter (email_is (data ''email'')) users)
        then Inl (ValidationError EmailExists)
      else Inr data)"

subsection \<open>CategorySerializer\<close>

definition validate_slug :: "category list \<Rightarrow> string \<Rightarrow> error + string" where
  "validate_slug categories v =
     (if exists_qs (objects_filter (\<lambda>c. category_slug c = v) categories)
      then Inl (ValidationError CategorySlugExists)
      else Inr v)"

subsection \<open>TitleWriteSerializer\<close>

text \<open>The year of \<^verbatim>\<open>dt.datetime.now()\<close> is the first argument.\<close>

definition validate_year :: "int \<Rightarrow> int \<Rightarrow> error + int" where
  "validate_year now_year v =
     (if v > now_year then Inl (ValidationError YearAfterCurrent) else Inr v)"

subsection \<open>ReviewSerializer\<close>

text \<open>
  Python's chained comparison \<^verbatim>\<open>0 > value > 10\<close> is
  \<^verbatim>\<open>0 > value and value > 10\<close>.
\<close>

definition validate_score :: "int \<Rightarrow> error + int" where
  "validate_score v =
     (if 0 > v \<and> v > 10 then Inl (ValidationError TenPointScale) else Inr v)"

text \<open>
  \<^verbatim>\<open>get_object_or_404(Title, pk=title_id)\<close>: the Title with that primary key,
  or \<^verbatim>\<open>Http404\<close> when there is none. Primary keys are unique, so the lookup
  matches at most one row.
\<close>

definition get_object_or_404 :: "title list \<Rightarrow> int option \<Rightarrow> error + title" where
  "get_object_or_404 titles pk =
     (case objects_filter (\<lambda>t. Some (title_pk t) = pk) titles of
        [] \<Rightarrow> Inl Http404
      | t # _ \<Rightarrow> Inr t)"

text \<open>
  The context of the serializer is the request and the \<^verbatim>\<open>title_id\<close> of the
  view's path (\<^verbatim>\<open>kwargs.get\<close> gives \<^verbatim>\<open>None\<close> when it is missing). The store is
  the Title table and the Review table.
\<close>

definition ReviewSerializer_validate ::
    "title list \<Rightarrow> review list \<Rightarrow> request \<Rightarrow> int option \<Rightarrow> 'd \<Rightarrow> error + 'd" where
  "ReviewSerializer_validate titles reviews req title_id data =
     (let athr = user req in
      case get_object_or_404 titles title_id of
        Inl e \<Rightarrow> Inl e
      | Inr t \<Rightarrow>
          if request_method req = ''POST''
             \<and> exists_qs (objects_filter
                  (\<lambda>r. review_title r = title_pk t \<and> same_user athr (author r)) reviews)
          then Inl (DjangoValidationError SecondReview)
          else Inr data)"

section \<open>Title filter (api/filters.py)\<close>

text \<open>
  A filter is declared by its kind, the field path it looks at and its lookup
  expression (\<^verbatim>\<open>exact\<close> when none is given).
\<close>

datatype filter_kind = CharFilter | NumberFilter

datatype lookup_expr = Exact | IContains

datatype filter_decl = Filter filter_kind string lookup_expr

definition declared_filters :: "(string \<times> filter_decl) list" where
  "declared_filters =
     [(''category'', Filter CharFilter ''category__slug'' Exact),
      (''genre'', Filter CharFilter ''genre__slug'' Exact),
      (''name'', Filter CharFilter ''name'' IContains),
      (''year'', Filter NumberFilter ''year'' Exact)]"

text \<open>
  Modelled from the spec: the fields of the Title model that are not relations
  (its automatic primary key apart), with the kind of filter that
  \<^verbatim>\<open>fields = '__all__'\<close> generates for each: a text filter for a text field, a
  number filter for an integer field. The relations category and genre have
  declared filters of their names, which stand in place of generated ones.
  \<^verbatim>\<open>Meta\<close> adds an \<^verbatim>\<open>exact\<close> filter for every field of the model that has no
  declared filter of its name.
\<close>

definition Title_fields :: "(string \<times> filter_kind) list" where
  "Title_fields =
     [(''name'', CharFilter), (''year'', NumberFilter), (''description'', CharFilter)]"

definition Meta_filters :: "(string \<times> filter_decl) list" where
  "Meta_filters =
     map (\<lambda>(f, k). (f, Filter k f Exact))
       (filter (\<lambda>(f, k). f \<notin> set (map fst declared_filters)) Title_fields)"

definition filters :: "(string \<times> filter_decl) list" where
  "filters = declared_filters @ Meta_filters"

text \<open>
  The query parameters as the filter form hands them to the filters: a
  parameter that is present with a non-empty value is mapped to its cleaned
  value, a text or a number. The map holds every parameter of the request,
  also those that name no filter.
\<close>

datatype qvalue = Text string | Number int

type_synonym query_params = "string \<rightharpoonup> qvalue"

text \<open>The values a Title has at a field path; a relation gives one per related row.\<close>

definition field_values :: "title \<Rightarrow> string \<Rightarrow> qvalue list" where
  "field_values t path =
     (if path = ''category__slug'' then
        (case title_category t of None \<Rightarrow> [] | Some c \<Rightarrow> [Text (category_slug c)])
      else if path = ''genre__slug'' then map (\<lambda>g. Text (genre_slug g)) (title_genre t)
      else if path = ''name'' then [Text (title_name t)]
      else if path = ''year'' then [Number (title_year t)]
      else if path = ''description'' then
        (case title_description t of None \<Rightarrow> [] | Some d \<Rightarrow> [Text d])
      else [])"

text \<open>
  \<^verbatim>\<open>icontains\<close> compares without regard to case: both texts are put in lower
  case (the letters A to Z), and the value must occur in the field as a
  contiguous part. \<open>contains xs ys\<close> holds when \<open>xs\<close> occurs in \<open>ys\<close>.
\<close>

definition lower_char :: "char \<Rightarrow> char" where
  "lower_char c =
     (if 65 \<le> (of_char c :: nat) \<and> (of_char c :: nat) \<le> 90
      then char_of ((of_char c :: nat) + 32) else c)"

definition lower :: "string \<Rightarrow> string" where
  "lower s = map lower_char s"

fun starts_with :: "'a list \<Rightarrow> 'a list \<Rightarrow> bool" where
  "starts_with [] ys = True"
| "starts_with (x # xs) [] = False"
| "starts_with (x # xs) (y # ys) = (x = y \<and> starts_with xs ys)"

fun contains :: "'a list \<Rightarrow> 'a list \<Rightarrow> bool" where
  "contains xs [] = (xs = [])"
| "contains xs (y # ys) = (starts_with xs (y # ys) \<or> contains xs ys)"

fun lookup_matches :: "lookup_expr \<Rightarrow> qvalue \<Rightarrow> qvalue \<Rightarrow> bool" where
  "lookup_matches Exact v c = (c = v)"
| "lookup_matches IContains (Text v) (Text c) = contains (lower v) (lower c)"
| "lookup_matches IContains _ _ = False"

text \<open>A filter takes a value of its kind; no Title matches a value of the other kind.\<close>

fun accepts :: "filter_kind \<Rightarrow> qvalue \<Rightarrow> bool" where
  "accepts CharFilter (Text _) = True"
| "accepts NumberFilter (Number _) = True"
| "accepts _ _ = False"

fun filter_matches :: "filter_decl \<Rightarrow> qvalue \<Rightarrow> title \<Rightarrow> bool" where
  "filter_matches (Filter kind path lk) v t =
     (accepts kind v \<and> list_ex (lookup_matches lk v) (field_values t path))"

definition title_selected :: "query_params \<Rightarrow> title \<Rightarrow> bool" where
  "title_selected q t =
     list_all (\<lambda>(nm, f). case q nm of None \<Rightarrow> True | Some v \<Rightarrow> filter_matches f v t) filters"

definition TitleFilter :: "query_params \<Rightarrow> title list \<Rightarrow> title list" where
  "TitleFilter q titles = filter (title_selected q) titles"

section \<open>Example store\<close>

text \<open>
  The two Titles of the spec's filter scenario, and a small store of users,
  categories and reviews on which the theorems below are instantiated.
\<close>

definition movie :: category where
  "movie = \<lparr>category_name = ''Movie'', category_slug = ''movie''\<rparr>"

definition action :: category where
  "action = \<lparr>category_name = ''Action'', category_slug = ''action''\<rparr>"

definition title_A :: title where
  "title_A = \<lparr>title_pk = 1, title_name = ''Alpha'', title_year = 2000,
     title_description = Some ''first'', title_category = Some movie,
     title_genre = [\<lparr>genre_name = ''Drama'', genre_slug = ''drama''\<rparr>]\<rparr>"

definition title_B :: title where
  "title_B = \<lparr>title_pk = 2, title_name = ''Beta'', title_year = 2010,
     title_description = Some ''second'', title_category = Some movie,
     title_genre = [\<lparr>genre_name = ''Comedy'', genre_slug = ''comedy''\<rparr>]\<rparr>"

definition alice :: user where
  "alice = \<lparr>user_pk = Some 1, username = ''alice'', email = ''alice@example.org'',
     is_authenticated = True, is_admin = False, is_moderator = False,
     is_superuser = False\<rparr>"

definition bob :: user where
  "bob = \<lparr>user_pk = Some 2, username = ''bob'', email = ''bob@example.org'',
     is_authenticated = True, is_admin = False, is_moderator = False,
     is_superuser = False\<rparr>"

definition root :: user where
  "root = \<lparr>user_pk = Some 3, username = ''root'', email = ''root@example.org'',
     is_authenticated = True, is_admin = True, is_moderator = False,
     is_superuser = False\<rparr>"

definition anonymous :: user where
  "anonymous = \<lparr>user_pk = None, username = [], email = [],
     is_authenticated = False, is_admin = False, is_moderator = False,
     is_superuser = False\<rparr>"

definition review_1 :: review where
  "review_1 = \<lparr>author = alice, review_title = 1, review_text = ''fine'',
     review_score = 7\<rparr>"

section \<open>Helper lemmas\<close>

lemma exists_filter_iff: "exists_qs (objects_filter p rows) \<longleftrightarrow> (\<exists>x \<in> set rows. p x)"
  by (simp add: exists_qs_def objects_filter_def filter_empty_conv)

lemma get_object_or_404_missing:
  "(\<forall>t \<in> set titles. Some (title_pk t) \<noteq> pk) \<Longrightarrow> get_object_or_404 titles pk = Inl Http404"
  by (simp add: get_object_or_404_def objects_filter_def filter_empty_conv[THEN iffD2])

lemma get_object_or_404_found:
  assumes "t \<in> set titles"
  shows "\<exists>t'. get_object_or_404 titles (Some (title_pk t)) = Inr t' \<and> title_pk t' = title_pk t"
proof -
  let ?qs = "objects_filter (\<lambda>x. Some (title_pk x) = Some (title_pk t)) titles"
  from assms have "t \<in> set ?qs" by (simp add: objects_filter_def)
  then obtain t' rest where qs: "?qs = t' # rest" by (cases ?qs) auto
  then have "t' \<in> set ?qs" by simp
  then have "title_pk t' = title_pk t" by (simp add: objects_filter_def)
  with qs show ?thesis by (simp add: get_object_or_404_def)
qed

lemma filters_eq:
  "filters =
     [(''category'', Filter CharFilter ''category__slug'' Exact),
      (''genre'', Filter CharFilter ''genre__slug'' Exact),
      (''name'', Filter CharFilter ''name'' IContains),
      (''year'', Filter NumberFilter ''year'' Exact),
      (''description'', Filter CharFilter ''description'' Exact)]"
  by (simp add: filters_def declared_filters_def Meta_filters_def Title_fields_def)

lemma starts_with_iff: "starts_with xs ys \<longleftrightarrow> (\<exists>zs. ys = xs @ zs)"
  by (induction xs ys rule: starts_with.induct) auto

lemma contains_iff: "contains xs ys \<longleftrightarrow> (\<exists>ps ss. ys = ps @ xs @ ss)"
proof (induction ys)
  case Nil
  then show ?case by auto
next
  case (Cons y ys)
  show ?case
  proof
    assume "contains xs (y # ys)"
    then consider "starts_with xs (y # ys)" | "contains xs ys" by auto
    then show "\<exists>ps ss. y # ys = ps @ xs @ ss"
    proof cases
      case 1
      then obtain zs where "y # ys = xs @ zs" by (auto simp: starts_with_iff)
      then have "y # ys = [] @ xs @ zs" by simp
      then show ?thesis by blast
    next
      case 2
      then obtain ps ss where "ys = ps @ xs @ ss" using Cons.IH by blast
      then have "y # ys = (y # ps) @ xs @ ss" by simp
      then show ?thesis by blast
    qed
  next
    assume "\<exists>ps ss. y # ys = ps @ xs @ ss"
    then obtain ps ss where e: "y # ys = ps @ xs @ ss" by blast
    show "contains xs (y # ys)"
    proof (cases ps)
      case Nil
      with e have "starts_with xs (y # ys)" by (auto simp: starts_with_iff)
      then show ?thesis by simp
    next
      case (Cons p ps')
      with e have "ys = ps' @ xs @ ss" by simp
      then have "contains xs ys" using Cons.IH by blast
      then show ?thesis by simp
    qed
  qed
qed

text \<open>
  What \<open>lower\<close> identifies: two characters have the same lower case exactly
  when they are equal or are the capital (code 65 to 90) and the small form
  (32 higher) of one letter.
\<close>

lemma of_char_lower_char:
  "(of_char (lower_char c) :: nat) =
     (if 65 \<le> (of_char c :: nat) \<and> (of_char c :: nat) \<le> 90 then of_char c + 32 else of_char c)"
  by (simp add: lower_char_def)

lemma lower_char_eq_iff:
  "lower_char c = lower_char d \<longleftrightarrow>
     c = d
     \<or> (65 \<le> (of_char c :: nat) \<and> (of_char c :: nat) \<le> 90
         \<and> (of_char d :: nat) = of_char c + 32)
     \<or> (65 \<le> (of_char d :: nat) \<and> (of_char d :: nat) \<le> 90
         \<and> (of_char c :: nat) = of_char d + 32)"
proof -
  have "lower_char c = lower_char d \<longleftrightarrow>
      (of_char (lower_char c) :: nat) = of_char (lower_char d)"
    by simp
  also have "\<dots> \<longleftrightarrow>
     (of_char c :: nat) = of_char d
     \<or> (65 \<le> (of_char c :: nat) \<and> (of_char c :: nat) \<le> 90
         \<and> (of_char d :: nat) = of_char c + 32)
     \<or> (65 \<le> (of_char d :: nat) \<and> (of_char d :: nat) \<le> 90
         \<and> (of_char c :: nat) = of_char d + 32)"
    unfolding of_char_lower_char by arith
  finally show ?thesis by simp
qed

lemma lower_eq_iff:
  "lower m = lower s \<longleftrightarrow>
     list_all2 (\<lambda>c d. c = d
                \<or> (65 \<le> (of_char c :: nat) \<and> (of_char c :: nat) \<le> 90
                    \<and> (of_char d :: nat) = of_char c + 32)
                \<or> (65 \<le> (of_char d :: nat) \<and> (of_char d :: nat) \<le> 90
                    \<and> (of_char c :: nat) = of_char d + 32)) m s"
proof -
  have "lower m = lower s \<longleftrightarrow> list_all2 (\<lambda>c d. lower_char c = lower_char d) m s"
    unfolding lower_def by (induction m s rule: list_induct2') auto
  then show ?thesis by (simp only: lower_char_eq_iff)
qed

lemma lower_contains_iff:
  "(\<exists>ps ss. lower n = ps @ lower s @ ss) \<longleftrightarrow>
     (\<exists>ps m ss. n = ps @ m @ ss \<and> lower m = lower s)"
proof
  assume "\<exists>ps ss. lower n = ps @ lower s @ ss"
  then obtain ps ss where "map lower_char n = ps @ map lower_char s @ ss"
    by (auto simp: lower_def)
  then have "\<exists>us r. n = us @ r \<and> ps = map lower_char us
      \<and> map lower_char s @ ss = map lower_char r"
    by (simp only: map_eq_append_conv)
  then obtain us r where n: "n = us @ r" and r: "map lower_char s @ ss = map lower_char r"
    by blast
  from r have "\<exists>m vs. r = m @ vs \<and> map lower_char s = map lower_char m
      \<and> ss = map lower_char vs"
    by (simp only: append_eq_map_conv)
  then obtain m vs where "r = m @ vs" and "map lower_char m = map lower_char s"
    by auto
  with n have "n = us @ m @ vs \<and> lower m = lower s" by (simp add: lower_def)
  then show "\<exists>ps m ss. n = ps @ m @ ss \<and> lower m = lower s" by blast
next
  assume "\<exists>ps m ss. n = ps @ m @ ss \<and> lower m = lower s"
  then obtain ps m ss where "n = ps @ m @ ss" and "lower m = lower s" by blast
  then have "lower n = lower ps @ lower s @ lower ss" by (simp add: lower_def)
  then show "\<exists>ps ss. lower n = ps @ lower s @ ss" by blast
qed

text \<open>What each filter of the set asks of a Title.\<close>

lemma category_filter_iff:
  "filter_matches (Filter CharFilter ''category__slug'' Exact) v t \<longleftrightarrow>
     (\<exists>c. title_category t = Some c \<and> v = Text (category_slug c))"
  by (cases v) (auto simp: field_values_def split: option.splits)

lemma genre_filter_iff:
  "filter_matches (Filter CharFilter ''genre__slug'' Exact) v t \<longleftrightarrow>
     (\<exists>g \<in> set (title_genre t). v = Text (genre_slug g))"
  by (cases v) (auto simp: field_values_def list_ex_iff)

lemma name_filter_iff:
  "filter_matches (Filter CharFilter ''name'' IContains) v t \<longleftrightarrow>
     (\<exists>s ps m ss. v = Text s \<and> title_name t = ps @ m @ ss
              \<and> list_all2 (\<lambda>c d. c = d
                \<or> (65 \<le> (of_char c :: nat) \<and> (of_char c :: nat) \<le> 90
                    \<and> (of_char d :: nat) = of_char c + 32)
                \<or> (65 \<le> (of_char d :: nat) \<and> (of_char d :: nat) \<le> 90
                    \<and> (of_char c :: nat) = of_char d + 32)) m s)"
proof -
  have "filter_matches (Filter CharFilter ''name'' IContains) v t \<longleftrightarrow>
      (\<exists>s. v = Text s \<and> (\<exists>ps ss. lower (title_name t) = ps @ lower s @ ss))"
    by (cases v) (auto simp: field_values_def contains_iff)
  then show ?thesis
    unfolding lower_contains_iff lower_eq_iff by blast
qed

lemma year_filter_iff:
  "filter_matches (Filter NumberFilter ''year'' Exact) v t \<longleftrightarrow> v = Number (title_year t)"
  by (cases v) (auto simp: field_values_def)

lemma description_filter_iff:
  "filter_matches (Filter CharFilter ''description'' Exact) v t \<longleftrightarrow>
     (\<exists>d. title_description t = Some d \<and> v = Text d)"
  by (cases v) (auto simp: field_values_def split: option.splits)

lemma title_selected_iff:
  "title_selected q t \<longleftrightarrow>
     (\<forall>v. q ''category'' = Some v \<longrightarrow> (\<exists>c. title_category t = Some c \<and> v = Text (category_slug c)))
     \<and> (\<forall>v. q ''genre'' = Some v \<longrightarrow> (\<exists>g \<in> set (title_genre t). v = Text (genre_slug g)))
     \<and> (\<forall>v. q ''name'' = Some v \<longrightarrow>
          (\<exists>s ps m ss. v = Text s \<and> title_name t = ps @ m @ ss
              \<and> list_all2 (\<lambda>c d. c = d
                \<or> (65 \<le> (of_char c :: nat) \<and> (of_char c :: nat) \<le> 90
                    \<and> (of_char d :: nat) = of_char c + 32)
                \<or> (65 \<le> (of_char d :: nat) \<and> (of_char d :: nat) \<le> 90
                    \<and> (of_char c :: nat) = of_char d + 32)) m s))
     \<and> (\<forall>v. q ''year'' = Some v \<longrightarrow> v = Number (title_year t))
     \<and> (\<forall>v. q ''description'' = Some v \<longrightarrow> (\<exists>d. title_description t = Some d \<and> v = Text d))"
  unfolding title_selected_def filters_eq
  by (simp only: list.pred_inject prod.case category_filter_iff genre_filter_iff name_filter_iff
      year_filter_iff description_filter_iff split: option.split) auto

lemma title_selected_restrict:
  "title_selected (q |` {''category'', ''genre'', ''name'', ''year'', ''description''})
     = title_selected q"
  by (rule ext) (simp add: title_selected_iff restrict_map_def)

section \<open>Score validation\<close>

text \<open>
  The condition of \<open>validate_score\<close> holds for no integer, so the validator
  returns every score it is given.
\<close>

lemma validate_score_never_fails: "validate_score v = Inr v"
  by (simp add: validate_score_def)

text \<open>
  C1. The claim is that a score outside the range 0 to 10 fails with a
  ValidationError. At the score 11 \<open>validate_score\<close> does not fail: it
  returns 11.
\<close>

theorem validate_score_accepts_11: "validate_score 11 = Inr 11"
  by (simp add: validate_score_def)

section \<open>Category slug\<close>

text \<open>
  C2. \<open>validate_slug\<close> fails with a ValidationError whenever a stored Category
  has the slug that is written. The instance being updated is itself a stored
  Category, so an update that keeps its slug fails as well. When no stored
  Category has the slug, \<open>validate_slug\<close> returns it (whatever its length).
\<close>

theorem validate_slug_unique:
  "((\<exists>c \<in> set categories. category_slug c = v) \<longrightarrow>
      validate_slug categories v = Inl (ValidationError CategorySlugExists))
   \<and> (c \<in> set categories \<longrightarrow>
      validate_slug categories (category_slug c) = Inl (ValidationError CategorySlugExists))
   \<and> ((\<forall>c \<in> set categories. category_slug c \<noteq> v) \<longrightarrow> validate_slug categories v = Inr v)"
  by (auto simp: validate_slug_def exists_filter_iff)

text \<open>
  With the Category of slug action stored: a second write of the slug action
  fails, an update of that Category with its own slug fails, and the slug movie
  passes.
\<close>

theorem validate_slug_unique_witness:
  "validate_slug [action] ''action'' = Inl (ValidationError CategorySlugExists)
   \<and> validate_slug [action] (category_slug action) = Inl (ValidationError CategorySlugExists)
   \<and> validate_slug [action] ''movie'' = Inr ''movie''"
  using validate_slug_unique [of "[action]" "''action''" action]
    validate_slug_unique [of "[action]" "''movie''" action]
  by (simp add: action_def)

section \<open>Registration\<close>

text \<open>
  C5. \<open>CreateUserSerializer_validate\<close> fails with a ValidationError exactly
  when the username is me, or a stored user has the username, or a stored user
  has the email; when none of the three holds it returns the data unchanged.
\<close>

theorem CreateUserSerializer_validate_iff:
  "((\<exists>m. CreateUserSerializer_validate users data = Inl (ValidationError m)) \<longleftrightarrow>
      (data ''username'' = Some ''me''
       \<or> (\<exists>u \<in> set users. data ''username'' = Some (username u))
       \<or> (\<exists>u \<in> set users. data ''email'' = Some (email u))))
   \<and> (\<not> (data ''username'' = Some ''me''
          \<or> (\<exists>u \<in> set users. data ''username'' = Some (username u))
          \<or> (\<exists>u \<in> set users. data ''email'' = Some (email u))) \<longrightarrow>
      CreateUserSerializer_validate users data = Inr data)"
  by (auto simp: CreateUserSerializer_validate_def exists_filter_iff username_is_def email_is_def)

text \<open>
  With alice stored: the username me fails, the username alice fails, the email
  of alice fails, and a new username with a new email passes.
\<close>

theorem CreateUserSerializer_validate_iff_witness:
  "(\<exists>m. CreateUserSerializer_validate [alice]
           [''username'' \<mapsto> ''me'', ''email'' \<mapsto> ''me@example.org'']
         = Inl (ValidationError m))
   \<and> (\<exists>m. CreateUserSerializer_validate [alice]
           [''username'' \<mapsto> ''alice'', ''email'' \<mapsto> ''other@example.org'']
         = Inl (ValidationError m))
   \<and> (\<exists>m. CreateUserSerializer_validate [alice]
           [''username'' \<mapsto> ''carol'', ''email'' \<mapsto> ''alice@example.org'']
         = Inl (ValidationError m))
   \<and> CreateUserSerializer_validate [alice]
           [''username'' \<mapsto> ''carol'', ''email'' \<mapsto> ''carol@example.org'']
         = Inr [''username'' \<mapsto> ''carol'', ''email'' \<mapsto> ''carol@example.org'']"
  using
    CreateUserSerializer_validate_iff [of "[alice]"
      "[''username'' \<mapsto> ''me'', ''email'' \<mapsto> ''me@example.org'']"]
    CreateUserSerializer_validate_iff [of "[alice]"
      "[''username'' \<mapsto> ''alice'', ''email'' \<mapsto> ''other@example.org'']"]
    CreateUserSerializer_validate_iff [of "[alice]"
      "[''username'' \<mapsto> ''carol'', ''email'' \<mapsto> ''alice@example.org'']"]
    CreateUserSerializer_validate_iff [of "[alice]"
      "[''username'' \<mapsto> ''carol'', ''email'' \<mapsto> ''carol@example.org'']"]
  by (simp add: alice_def)

section \<open>Title year\<close>

text \<open>
  C6. \<open>validate_year\<close> fails with a ValidationError for every year greater
  than the current year and returns every year that is at most the current
  year; the current year itself passes.
\<close>

theorem validate_year_bound:
  "(v > now_year \<longrightarrow> validate_year now_year v = Inl (ValidationError YearAfterCurrent))
   \<and> (v \<le> now_year \<longrightarrow> validate_year now_year v = Inr v)
   \<and> validate_year now_year now_year = Inr now_year"
  by (simp add: validate_year_def)

theorem validate_year_bound_witness:
  "validate_year 2026 2027 = Inl (ValidationError YearAfterCurrent)
   \<and> validate_year 2026 1999 = Inr 1999
   \<and> validate_year 2026 2026 = Inr 2026"
  using validate_year_bound [of 2026 2027] validate_year_bound [of 2026 1999]
    validate_year_bound [of 2026 2026]
  by simp

section \<open>Permissions\<close>

text \<open>
  C7. \<open>IsAdminOrReadOnly_has_permission\<close> grants every request whose method is
  GET, HEAD or OPTIONS, whoever sends it. For every other method it grants
  exactly the requesters that are authenticated and admin or superuser; so an
  authenticated requester that is neither admin nor superuser is denied.
\<close>

theorem IsAdminOrReadOnly_has_permission_iff:
  "(request_method req \<in> {''GET'', ''HEAD'', ''OPTIONS''} \<longrightarrow> IsAdminOrReadOnly_has_permission req)
   \<and> (request_method req \<notin> {''GET'', ''HEAD'', ''OPTIONS''} \<longrightarrow>
        (IsAdminOrReadOnly_has_permission req \<longleftrightarrow>
           is_authenticated (user req) \<and> (is_admin (user req) \<or> is_superuser (user req))))
   \<and> (request_method req \<notin> {''GET'', ''HEAD'', ''OPTIONS''} \<and> is_authenticated (user req)
        \<and> \<not> is_admin (user req) \<and> \<not> is_superuser (user req) \<longrightarrow>
        \<not> IsAdminOrReadOnly_has_permission req)"
  by (auto simp: IsAdminOrReadOnly_has_permission_def SAFE_METHODS_def)

text \<open>
  An anonymous GET is granted, a POST of the admin root is granted, a POST of
  the plain user alice and an anonymous DELETE are denied.
\<close>

theorem IsAdminOrReadOnly_has_permission_iff_witness:
  "IsAdminOrReadOnly_has_permission \<lparr>request_method = ''GET'', user = anonymous\<rparr>
   \<and> IsAdminOrReadOnly_has_permission \<lparr>request_method = ''POST'', user = root\<rparr>
   \<and> \<not> IsAdminOrReadOnly_has_permission \<lparr>request_method = ''POST'', user = alice\<rparr>
   \<and> \<not> IsAdminOrReadOnly_has_permission \<lparr>request_method = ''DELETE'', user = anonymous\<rparr>"
  using
    IsAdminOrReadOnly_has_permission_iff [of "\<lparr>request_method = ''GET'', user = anonymous\<rparr>"]
    IsAdminOrReadOnly_has_permission_iff [of "\<lparr>request_method = ''POST'', user = root\<rparr>"]
    IsAdminOrReadOnly_has_permission_iff [of "\<lparr>request_method = ''POST'', user = alice\<rparr>"]
    IsAdminOrReadOnly_has_permission_iff [of "\<lparr>request_method = ''DELETE'', user = anonymous\<rparr>"]
  by (simp add: anonymous_def root_def alice_def)

text \<open>
  C8. For a request whose method is not GET, HEAD or OPTIONS, the object-level
  check \<open>IsAdminOrModeratirOrAuthor_has_object_permission\<close> grants exactly the
  requesters that are superuser, admin, moderator, or the author of the object
  (the same stored user, by primary key). A request with a safe method is
  granted for every object.
\<close>

theorem has_object_permission_iff:
  "(request_method req \<notin> {''GET'', ''HEAD'', ''OPTIONS''} \<longrightarrow>
      (IsAdminOrModeratirOrAuthor_has_object_permission req obj \<longleftrightarrow>
         is_superuser (user req) \<or> is_admin (user req) \<or> is_moderator (user req)
         \<or> (\<exists>k. user_pk (user req) = Some k \<and> user_pk (author obj) = Some k)))
   \<and> (request_method req \<in> {''GET'', ''HEAD'', ''OPTIONS''} \<longrightarrow>
        IsAdminOrModeratirOrAuthor_has_object_permission req obj)"
  by (auto simp: IsAdminOrModeratirOrAuthor_has_object_permission_def SAFE_METHODS_def
      same_user_def split: option.splits)

text \<open>
  On the review of alice: a PATCH of alice and a DELETE of the admin root are
  granted, a PATCH of bob is denied, an anonymous GET is granted.
\<close>

theorem has_object_permission_iff_witness:
  "IsAdminOrModeratirOrAuthor_has_object_permission \<lparr>request_method = ''PATCH'', user = alice\<rparr> review_1
   \<and> IsAdminOrModeratirOrAuthor_has_object_permission \<lparr>request_method = ''DELETE'', user = root\<rparr> review_1
   \<and> \<not> IsAdminOrModeratirOrAuthor_has_object_permission \<lparr>request_method = ''PATCH'', user = bob\<rparr> review_1
   \<and> IsAdminOrModeratirOrAuthor_has_object_permission \<lparr>request_method = ''GET'', user = anonymous\<rparr> review_1"
  using
    has_object_permission_iff [of "\<lparr>request_method = ''PATCH'', user = alice\<rparr>" review_1]
    has_object_permission_iff [of "\<lparr>request_method = ''DELETE'', user = root\<rparr>" review_1]
    has_object_permission_iff [of "\<lparr>request_method = ''PATCH'', user = bob\<rparr>" review_1]
    has_object_permission_iff [of "\<lparr>request_method = ''GET'', user = anonymous\<rparr>" review_1]
  by (simp add: anonymous_def root_def alice_def bob_def review_1_def)

section \<open>Review validation\<close>

text \<open>
  C10. \<open>ReviewSerializer_validate\<close> looks the Title up first, whatever the
  method of the request: when no stored Title has the \<open>title_id\<close> of the path,
  the result is \<open>Http404\<close>, for every method and every Review table, so also
  where the duplicate check would have failed.
\<close>

theorem ReviewSerializer_validate_missing_title:
  "(\<forall>t \<in> set titles. Some (title_pk t) \<noteq> title_id) \<Longrightarrow>
     ReviewSerializer_validate titles reviews req title_id data = Inl Http404"
  by (simp add: ReviewSerializer_validate_def get_object_or_404_missing)

text \<open>
  With Title 1 alone stored: a PATCH for Title 5, a POST for Title 5 of a user
  who has a review recorded for Title 5, and a PUT without \<open>title_id\<close> all
  give \<open>Http404\<close>.
\<close>

theorem ReviewSerializer_validate_missing_title_witness:
  "ReviewSerializer_validate [title_A] [review_1] \<lparr>request_method = ''PATCH'', user = alice\<rparr> (Some 5) ''text''
     = Inl Http404
   \<and> ReviewSerializer_validate [title_A] [review_1\<lparr>review_title := 5\<rparr>]
        \<lparr>request_method = ''POST'', user = alice\<rparr> (Some 5) ''text'' = Inl Http404
   \<and> ReviewSerializer_validate [title_A] [review_1] \<lparr>request_method = ''PUT'', user = alice\<rparr> None ''text''
     = Inl Http404"
proof -
  have a: "\<forall>t \<in> set [title_A]. Some (title_pk t) \<noteq> Some 5" by (simp add: title_A_def)
  have b: "\<forall>t \<in> set [title_A]. Some (title_pk t) \<noteq> None" by simp
  show ?thesis
    using
      ReviewSerializer_validate_missing_title [OF a, of "[review_1]"
        "\<lparr>request_method = ''PATCH'', user = alice\<rparr>" "''text''"]
      ReviewSerializer_validate_missing_title [OF a, of "[review_1\<lparr>review_title := 5\<rparr>]"
        "\<lparr>request_method = ''POST'', user = alice\<rparr>" "''text''"]
      ReviewSerializer_validate_missing_title [OF b, of "[review_1]"
        "\<lparr>request_method = ''PUT'', user = alice\<rparr>" "''text''"]
    by simp
qed

text \<open>
  C4. For a POST of a stored user on a stored Title:
  \<open>ReviewSerializer_validate\<close> fails with a ValidationError (the one of
  \<^verbatim>\<open>django.core.exceptions\<close>) when the Review table has a review of that Title
  by that user; when every stored review is of another Title or by another
  author, it returns the data.
\<close>

theorem ReviewSerializer_validate_duplicate:
  assumes "t \<in> set titles" and "request_method req = ''POST''" and "user_pk (user req) = Some a"
  shows "((\<exists>r \<in> set reviews. review_title r = title_pk t \<and> user_pk (author r) = Some a) \<longrightarrow>
            ReviewSerializer_validate titles reviews req (Some (title_pk t)) data
              = Inl (DjangoValidationError SecondReview))
         \<and> ((\<forall>r \<in> set reviews. review_title r \<noteq> title_pk t \<or> user_pk (author r) \<noteq> Some a) \<longrightarrow>
            ReviewSerializer_validate titles reviews req (Some (title_pk t)) data = Inr data)"
proof -
  from assms(1) obtain t' where
    found: "get_object_or_404 titles (Some (title_pk t)) = Inr t'" and pk: "title_pk t' = title_pk t"
    using get_object_or_404_found by blast
  show ?thesis
    using assms(2,3)
    by (auto simp: ReviewSerializer_validate_def found pk exists_filter_iff same_user_def)
qed

text \<open>
  With the review of alice for Title 1 stored: a second POST of alice for
  Title 1 fails, a POST of bob for Title 1 passes, and a POST of alice for
  Title 2 passes.
\<close>

theorem ReviewSerializer_validate_duplicate_witness:
  "ReviewSerializer_validate [title_A, title_B] [review_1] \<lparr>request_method = ''POST'', user = alice\<rparr>
       (Some 1) ''text'' = Inl (DjangoValidationError SecondReview)
   \<and> ReviewSerializer_validate [title_A, title_B] [review_1] \<lparr>request_method = ''POST'', user = bob\<rparr>
       (Some 1) ''text'' = Inr ''text''
   \<and> ReviewSerializer_validate [title_A, title_B] [review_1] \<lparr>request_method = ''POST'', user = alice\<rparr>
       (Some 2) ''text'' = Inr ''text''"
proof -
  have tA: "title_A \<in> set [title_A, title_B]" and tB: "title_B \<in> set [title_A, title_B]"
    by simp_all
  have m: "request_method \<lparr>request_method = ''POST'', user = u\<rparr> = ''POST''" for u by simp
  have ua: "user_pk (user \<lparr>request_method = ''POST'', user = alice\<rparr>) = Some 1" by (simp add: alice_def)
  have ub: "user_pk (user \<lparr>request_method = ''POST'', user = bob\<rparr>) = Some 2" by (simp add: bob_def)
  show ?thesis
    using ReviewSerializer_validate_duplicate [OF tA m ua, of "[review_1]" "''text''"]
      ReviewSerializer_validate_duplicate [OF tA m ub, of "[review_1]" "''text''"]
      ReviewSerializer_validate_duplicate [OF tB m ua, of "[review_1]" "''text''"]
    by (simp add: title_A_def title_B_def review_1_def alice_def)
qed

section \<open>Title filter\<close>

text \<open>
  C3, as stated: the parameters other than category, genre, name and year have
  no effect. The parameter description has one: \<^verbatim>\<open>fields = '__all__'\<close> gives
  the filter set an exact filter on the description of a Title. With the
  description of Title B as parameter, only Title B is selected; with the
  parameter dropped, both Titles are.
\<close>

theorem TitleFilter_description_counterexample:
  "TitleFilter ([''description'' \<mapsto> Text ''second''] |` {''category'', ''genre'', ''name'', ''year''})
       [title_A, title_B]
     \<noteq> TitleFilter [''description'' \<mapsto> Text ''second''] [title_A, title_B]"
  by (simp add: TitleFilter_def title_selected_iff restrict_map_def title_A_def title_B_def)

text \<open>
  C3, amended: the parameters other than category, genre, name, year and
  description have no effect. For every query, the Titles selected are those
  selected by the query restricted to these five parameters.
\<close>

theorem TitleFilter_ignores_other_parameters:
  "TitleFilter (q |` {''category'', ''genre'', ''name'', ''year'', ''description''}) titles
     = TitleFilter q titles"
  by (simp only: TitleFilter_def title_selected_restrict)

theorem TitleFilter_ignores_other_parameters_witness:
  "TitleFilter ([''page'' \<mapsto> Text ''2'', ''year'' \<mapsto> Number 2010]
                  |` {''category'', ''genre'', ''name'', ''year'', ''description''})
       [title_A, title_B]
     = TitleFilter [''page'' \<mapsto> Text ''2'', ''year'' \<mapsto> Number 2010] [title_A, title_B]"
  using TitleFilter_ignores_other_parameters
    [of "[''page'' \<mapsto> Text ''2'', ''year'' \<mapsto> Number 2010]" "[title_A, title_B]"] .



end
